theory Spec2Isabelle
  imports Complex_Main "HOL-Library.Sublist"
begin

section \<open>Data model (models/workflow.py)\<close>

text \<open>
  Timestamps (Python \<open>datetime\<close>) are points on an integer time line. Python floats are
  modelled as reals: rounding of IEEE doubles is not part of this development.
\<close>

type_synonym datetime = int

datatype CampaignStatus = DRAFT | SCHEDULED | ACTIVE | PAUSED | COMPLETED | CANCELLED

datatype EmailStatus = PENDING | SENT | FAILED | BOUNCED | OPENED | CLICKED | REPLIED

record WorkflowPlan =
  invite :: "datetime option"
  reminder :: "datetime option"
  thank_you :: "datetime option"
  follow_up :: "datetime option"

record CampaignTargets =
  total_registrations :: int
  total_emails_sent :: int
  open_rate_target :: real
  click_rate_target :: real

record Campaign =
  name :: string
  title :: string
  description :: "string option"
  status :: CampaignStatus
  workflow_plan :: WorkflowPlan
  targets :: CampaignTargets
  created_at :: datetime
  updated_at :: datetime
  created_by :: "string option"

record EmailLog =
  campaign_name :: string
  email :: string
  email_type :: string
  email_status :: EmailStatus
  timestamp :: datetime
  message_id :: "string option"
  error_message :: "string option"
  retry_count :: int

text \<open>
  A document of the \<open>email_logs\<close> collection: the dumped \<open>EmailLog\<close> plus the two
  engagement flags that the metrics read with \<open>log.get('opened', False)\<close> and
  \<open>log.get('clicked', False)\<close> (an absent flag reads as \<open>False\<close>).
\<close>

record email_log_doc =
  doc_log :: EmailLog
  opened :: bool
  clicked :: bool

section \<open>Document store and scheduler state (services/workflow_service.py)\<close>

datatype error =
  AttributeError | TypeError | NotImplementedError | ZeroDivisionError
  | JobStoreError | JobLookupError | KeyError

text \<open>
  The database behind \<open>self.mongodb_client\<close>: the documents of its \<open>campaigns\<close> and
  \<open>email_logs\<close> collections, and \<open>job_writes_ok\<close>, which tells per job id whether the
  durable job store (it talks to the database through its own driver handle) accepts a
  write of that job.
\<close>

record mongodb =
  job_writes_ok :: "string \<Rightarrow> bool"
  campaigns :: "Campaign list"
  email_logs :: "email_log_doc list"

text \<open>
  A job of the scheduler: \<open>run_date\<close> is the time of its one-shot date trigger,
  \<open>next_run_time\<close> is \<open>None\<close> while the job is paused, \<open>args\<close> are the arguments of
  the dispatch callback \<open>(campaign_name, email_type, audience_segments)\<close>.
\<close>

record Job =
  job_id :: string
  run_date :: datetime
  next_run_time :: "datetime option"
  args :: "string \<times> string \<times> string list option"

record WorkflowService =
  mongodb_client :: "mongodb option"
  scheduler_jobs :: "Job list"

text \<open>
  \<open>self.mongodb_client.get_collection(name)\<close>, as every method of the workflow service
  calls it. Without a client the attribute access on \<open>None\<close> raises \<open>AttributeError\<close>.
  With the client, the accessor \<open>MongoDBClient.get_collection(self)\<close>
  (database/mongodb\_client.py, line 129) takes no collection name, so the call with a name
  raises \<open>TypeError\<close>. No call returns a collection; the right summand is the database
  the caller would go on with.
\<close>

definition get_collection :: "mongodb option \<Rightarrow> string \<Rightarrow> error + mongodb" where
  "get_collection client collection_name =
     (case client of
        None \<Rightarrow> Inl AttributeError
      | Some db \<Rightarrow> Inl TypeError)"

text \<open>
  \<open>_initialize_scheduler\<close> picks the in-memory job store when there is no client; the
  in-memory store never refuses a write.
\<close>

definition job_store_accepts :: "WorkflowService \<Rightarrow> string \<Rightarrow> bool" where
  "job_store_accepts s jid =
     (case mongodb_client s of None \<Rightarrow> True | Some db \<Rightarrow> job_writes_ok db jid)"

text \<open>
  \<open>scheduler.add_job(..., id=job_id, replace_existing=True)\<close>: a job with the same id is
  replaced in place, otherwise the job is added.
\<close>

definition add_job :: "WorkflowService \<Rightarrow> Job \<Rightarrow> error + WorkflowService" where
  "add_job s j =
     (if \<not> job_store_accepts s (job_id j) then Inl JobStoreError
      else if job_id j \<in> set (map job_id (scheduler_jobs s))
      then Inr (s\<lparr>scheduler_jobs :=
                  map (\<lambda>k. if job_id k = job_id j then j else k) (scheduler_jobs s)\<rparr>)
      else Inr (s\<lparr>scheduler_jobs := scheduler_jobs s @ [j]\<rparr>))"

text \<open>\<open>replace_one({'name': n}, doc, upsert=True)\<close>: the first match is replaced, or the
  document is inserted.\<close>

fun replace_one :: "Campaign list \<Rightarrow> string \<Rightarrow> Campaign \<Rightarrow> Campaign list" where
  "replace_one [] n c = [c]"
| "replace_one (d # ds) n c = (if name d = n then c # ds else d # replace_one ds n c)"

text \<open>Lines 108-121 of \<open>schedule_campaign\<close>: the write is skipped without a client, and
  an exception of the write is logged and swallowed.\<close>

definition save_campaign :: "WorkflowService \<Rightarrow> Campaign \<Rightarrow> WorkflowService" where
  "save_campaign s c =
     (case mongodb_client s of
        None \<Rightarrow> s
      | Some db0 \<Rightarrow>
          (case get_collection (Some db0) ''campaigns'' of
             Inl e \<Rightarrow> s
           | Inr db \<Rightarrow>
               s\<lparr>mongodb_client := Some (db\<lparr>campaigns := replace_one (campaigns db) (name c) c\<rparr>)\<rparr>))"

text \<open>One \<open>if workflow_plan.<stage>:\<close> block of \<open>schedule_campaign\<close>.\<close>

definition schedule_stage ::
  "WorkflowService \<Rightarrow> string \<Rightarrow> string \<Rightarrow> datetime option \<Rightarrow> string list option
     \<Rightarrow> error + WorkflowService" where
  "schedule_stage s cname etype run segs =
     (case run of
        None \<Rightarrow> Inr s
      | Some t \<Rightarrow>
          add_job s \<lparr>job_id = cname @ ''_'' @ etype, run_date = t, next_run_time = Some t,
                     args = (cname, etype, segs)\<rparr>)"

definition schedule_campaign ::
  "WorkflowService \<Rightarrow> datetime \<Rightarrow> string \<Rightarrow> WorkflowPlan \<Rightarrow> CampaignTargets
     \<Rightarrow> string list option \<Rightarrow> bool \<times> WorkflowService" where
  "schedule_campaign s now cname plan tgts segs =
     (let campaign = \<lparr>name = cname, title = cname, description = None, status = SCHEDULED,
                       workflow_plan = plan, targets = tgts, created_at = now,
                       updated_at = now, created_by = Some ''system''\<rparr>;
          s0 = save_campaign s campaign
      in case schedule_stage s0 cname ''invite'' (invite plan) segs of
           Inl e \<Rightarrow> (False, s0)
         | Inr s1 \<Rightarrow>
        (case schedule_stage s1 cname ''reminder'' (reminder plan) segs of
           Inl e \<Rightarrow> (False, s1)
         | Inr s2 \<Rightarrow>
        (case schedule_stage s2 cname ''thank_you'' (thank_you plan) segs of
           Inl e \<Rightarrow> (False, s2)
         | Inr s3 \<Rightarrow>
        (case schedule_stage s3 cname ''follow_up'' (follow_up plan) segs of
           Inl e \<Rightarrow> (False, s3)
         | Inr s4 \<Rightarrow> (True, s4)))))"

subsection \<open>pause\_campaign and resume\_campaign\<close>

text \<open>
  \<open>update_one({'name': n}, {'$set': ...})\<close> on the campaigns collection: the first
  document with that name is updated. The second component is \<open>modified_count\<close>: 1 when
  the update changed the matched document, 0 when nothing matched or nothing changed.
\<close>

fun update_one :: "Campaign list \<Rightarrow> string \<Rightarrow> (Campaign \<Rightarrow> Campaign) \<Rightarrow> Campaign list \<times> nat" where
  "update_one [] n f = ([], 0)"
| "update_one (d # ds) n f =
     (if name d = n then (f d # ds, if f d = d then 0 else 1)
      else (d # fst (update_one ds n f), snd (update_one ds n f)))"

text \<open>
  \<open>job.pause()\<close> clears \<open>next_run_time\<close>; \<open>job.resume()\<close> asks the date trigger for
  its next fire time, which is \<open>run_date\<close>, and stores it as \<open>next_run_time\<close>.
\<close>

definition pause_job :: "WorkflowService \<Rightarrow> string \<Rightarrow> error + WorkflowService" where
  "pause_job s jid =
     (if jid \<notin> set (map job_id (scheduler_jobs s)) then Inl JobLookupError
      else if \<not> job_store_accepts s jid then Inl JobStoreError
      else Inr (s\<lparr>scheduler_jobs :=
                  map (\<lambda>k. if job_id k = jid then k\<lparr>next_run_time := None\<rparr> else k)
                    (scheduler_jobs s)\<rparr>))"

definition resume_job :: "WorkflowService \<Rightarrow> string \<Rightarrow> error + WorkflowService" where
  "resume_job s jid =
     (if jid \<notin> set (map job_id (scheduler_jobs s)) then Inl JobLookupError
      else if \<not> job_store_accepts s jid then Inl JobStoreError
      else Inr (s\<lparr>scheduler_jobs :=
                  map (\<lambda>k. if job_id k = jid then k\<lparr>next_run_time := Some (run_date k)\<rparr> else k)
                    (scheduler_jobs s)\<rparr>))"

text \<open>The loops \<open>for job in jobs: if job.id.startswith(f"{campaign_name}_"): ...\<close>; an
  exception leaves the jobs already handled as they are and ends the call.\<close>

fun pause_jobs :: "string \<Rightarrow> Job list \<Rightarrow> WorkflowService \<Rightarrow> bool \<times> WorkflowService" where
  "pause_jobs p [] s = (True, s)"
| "pause_jobs p (j # js) s =
     (if prefix p (job_id j)
      then (case pause_job s (job_id j) of
              Inl e \<Rightarrow> (False, s)
            | Inr s' \<Rightarrow> pause_jobs p js s')
      else pause_jobs p js s)"

fun resume_jobs :: "string \<Rightarrow> Job list \<Rightarrow> WorkflowService \<Rightarrow> bool \<times> WorkflowService" where
  "resume_jobs p [] s = (True, s)"
| "resume_jobs p (j # js) s =
     (if prefix p (job_id j)
      then (case resume_job s (job_id j) of
              Inl e \<Rightarrow> (False, s)
            | Inr s' \<Rightarrow> resume_jobs p js s')
      else resume_jobs p js s)"

definition set_status ::
  "mongodb \<Rightarrow> string \<Rightarrow> CampaignStatus \<Rightarrow> datetime \<Rightarrow> mongodb" where
  "set_status db cname st now =
     db\<lparr>campaigns := fst (update_one (campaigns db) cname
                             (\<lambda>d. d\<lparr>status := st, updated_at := now\<rparr>))\<rparr>"

definition pause_campaign ::
  "WorkflowService \<Rightarrow> datetime \<Rightarrow> string \<Rightarrow> bool \<times> WorkflowService" where
  "pause_campaign s now cname =
     (case get_collection (mongodb_client s) ''campaigns'' of
        Inl e \<Rightarrow> (False, s)
      | Inr db \<Rightarrow>
          (let s1 = s\<lparr>mongodb_client := Some (set_status db cname PAUSED now)\<rparr>
           in pause_jobs (cname @ ''_'') (scheduler_jobs s1) s1))"

definition resume_campaign ::
  "WorkflowService \<Rightarrow> datetime \<Rightarrow> string \<Rightarrow> bool \<times> WorkflowService" where
  "resume_campaign s now cname =
     (case get_collection (mongodb_client s) ''campaigns'' of
        Inl e \<Rightarrow> (False, s)
      | Inr db \<Rightarrow>
          (let s1 = s\<lparr>mongodb_client := Some (set_status db cname ACTIVE now)\<rparr>
           in resume_jobs (cname @ ''_'') (scheduler_jobs s1) s1))"

subsection \<open>get\_campaign\_status\<close>

record Metrics =
  m_total_sent :: int
  m_total_failed :: int
  m_total_pending :: int
  m_opened_count :: int
  m_clicked_count :: int
  m_open_rate :: real
  m_click_rate :: real

record CampaignStatusResponse =
  r_campaign_name :: string
  r_status :: CampaignStatus
  r_targets :: CampaignTargets
  current_metrics :: Metrics
  progress_percentage :: real
  next_scheduled_action :: "datetime option"
  r_total_emails_sent :: int
  r_total_emails_pending :: int
  open_rate :: real
  click_rate :: real
  registration_count :: int

definition count_status :: "email_log_doc list \<Rightarrow> EmailStatus \<Rightarrow> int" where
  "count_status logs st = int (length (filter (\<lambda>l. email_status (doc_log l) = st) logs))"

text \<open>Python's \<open>a / b\<close> on integers: \<open>ZeroDivisionError\<close> for a zero divisor.\<close>

definition truediv :: "int \<Rightarrow> int \<Rightarrow> error + real" where
  "truediv a b = (if b = 0 then Inl ZeroDivisionError else Inr (of_int a / of_int b))"

text \<open>The guarded quotients \<open>a / b if b > 0 else 0.0\<close> of lines 262, 263, 415 and 416.\<close>

definition guarded_rate :: "int \<Rightarrow> int \<Rightarrow> error + real" where
  "guarded_rate a b = (if b > 0 then truediv a b else Inr 0)"

text \<open>Line 266: \<open>(total_sent / target * 100) if target > 0 else 0.0\<close>.\<close>

definition guarded_progress :: "int \<Rightarrow> int \<Rightarrow> error + real" where
  "guarded_progress total_sent target =
     (if target > 0
      then (case truediv total_sent target of Inl e \<Rightarrow> Inl e | Inr q \<Rightarrow> Inr (q * 100))
      else Inr 0)"

fun next_action :: "string \<Rightarrow> Job list \<Rightarrow> datetime option \<Rightarrow> datetime option" where
  "next_action p [] acc = acc"
| "next_action p (j # js) acc =
     (case next_run_time j of
        None \<Rightarrow> next_action p js acc
      | Some t \<Rightarrow>
          if prefix p (job_id j)
          then (case acc of
                  None \<Rightarrow> next_action p js (Some t)
                | Some a \<Rightarrow> if t < a then next_action p js (Some t) else next_action p js acc)
          else next_action p js acc)"

text \<open>Lines 253-301 of \<open>get_campaign_status\<close>: the response computed from the campaign,
  its log documents and the scheduler's jobs.\<close>

definition status_response ::
  "string \<Rightarrow> Campaign \<Rightarrow> email_log_doc list \<Rightarrow> Job list \<Rightarrow> error + CampaignStatusResponse" where
  "status_response cname campaign logs jobs =
     (let total_sent = count_status logs SENT;
          total_failed = count_status logs FAILED;
          total_pending = count_status logs PENDING;
          opened_count = int (length (filter opened logs));
          clicked_count = int (length (filter clicked logs))
      in case guarded_rate opened_count total_sent of
           Inl e \<Rightarrow> Inl e
         | Inr orate \<Rightarrow>
        (case guarded_rate clicked_count total_sent of
           Inl e \<Rightarrow> Inl e
         | Inr crate \<Rightarrow>
        (case guarded_progress total_sent (total_emails_sent (targets campaign)) of
           Inl e \<Rightarrow> Inl e
         | Inr progress \<Rightarrow>
             Inr \<lparr>r_campaign_name = cname, r_status = status campaign,
                  r_targets = targets campaign,
                  current_metrics =
                    \<lparr>m_total_sent = total_sent, m_total_failed = total_failed,
                     m_total_pending = total_pending, m_opened_count = opened_count,
                     m_clicked_count = clicked_count, m_open_rate = orate,
                     m_click_rate = crate\<rparr>,
                  progress_percentage = progress,
                  next_scheduled_action = next_action (cname @ ''_'') jobs None,
                  r_total_emails_sent = total_sent,
                  r_total_emails_pending = total_pending,
                  open_rate = orate, click_rate = crate,
                  registration_count = 0\<rparr>)))"

text \<open>Every exception inside the \<open>try\<close> is logged and the result is \<open>None\<close>.\<close>

definition get_campaign_status ::
  "WorkflowService \<Rightarrow> string \<Rightarrow> CampaignStatusResponse option" where
  "get_campaign_status s cname =
     (case get_collection (mongodb_client s) ''campaigns'' of
        Inl e \<Rightarrow> None
      | Inr db \<Rightarrow>
          (case find (\<lambda>d. name d = cname) (campaigns db) of
             None \<Rightarrow> None
           | Some campaign \<Rightarrow>
               (case get_collection (mongodb_client s) ''email_logs'' of
                  Inl e \<Rightarrow> None
                | Inr db_logs \<Rightarrow>
                    (case status_response cname campaign
                            (filter (\<lambda>l. campaign_name (doc_log l) = cname) (email_logs db_logs))
                            (scheduler_jobs s) of
                       Inl e \<Rightarrow> None
                     | Inr response \<Rightarrow> Some response))))"

subsection \<open>get\_dashboard\_metrics and update\_campaign\_targets\<close>

record DashboardMetrics =
  total_campaigns :: int
  active_campaigns :: int
  dm_total_emails_sent :: int
  dm_total_emails_pending :: int
  average_open_rate :: real
  average_click_rate :: real
  dm_total_registrations :: int
  campaigns_by_status :: "CampaignStatus \<rightharpoonup> int"

definition group_by_status :: "Campaign list \<Rightarrow> (CampaignStatus \<rightharpoonup> int)" where
  "group_by_status cs st =
     (let n = length (filter (\<lambda>c. status c = st) cs) in if n = 0 then None else Some (int n))"

definition zero_metrics :: DashboardMetrics where
  "zero_metrics =
     \<lparr>total_campaigns = 0, active_campaigns = 0, dm_total_emails_sent = 0,
      dm_total_emails_pending = 0, average_open_rate = 0, average_click_rate = 0,
      dm_total_registrations = 0, campaigns_by_status = Map.empty\<rparr>"

text \<open>Lines 402-434 of \<open>get_dashboard_metrics\<close>, from the documents of the two
  collections.\<close>

definition dashboard_response ::
  "Campaign list \<Rightarrow> email_log_doc list \<Rightarrow> error + DashboardMetrics" where
  "dashboard_response cs logs =
     (let n_campaigns = int (length cs);
          n_active = int (length (filter (\<lambda>c. status c = ACTIVE) cs));
          n_sent = count_status logs SENT;
          n_pending = count_status logs PENDING;
          sent_logs = filter (\<lambda>l. email_status (doc_log l) = SENT) logs;
          opened_count = int (length (filter opened sent_logs));
          clicked_count = int (length (filter clicked sent_logs))
      in case guarded_rate opened_count n_sent of
           Inl e \<Rightarrow> Inl e
         | Inr orate \<Rightarrow>
        (case guarded_rate clicked_count n_sent of
           Inl e \<Rightarrow> Inl e
         | Inr crate \<Rightarrow>
             Inr \<lparr>total_campaigns = n_campaigns, active_campaigns = n_active,
                  dm_total_emails_sent = n_sent, dm_total_emails_pending = n_pending,
                  average_open_rate = orate, average_click_rate = crate,
                  dm_total_registrations = 0,
                  campaigns_by_status = group_by_status cs\<rparr>))"

text \<open>The \<open>except\<close> branch returns the all-zero metrics.\<close>

definition get_dashboard_metrics :: "WorkflowService \<Rightarrow> DashboardMetrics" where
  "get_dashboard_metrics s =
     (case get_collection (mongodb_client s) ''campaigns'' of
        Inl e \<Rightarrow> zero_metrics
      | Inr db \<Rightarrow>
          (case get_collection (mongodb_client s) ''email_logs'' of
             Inl e \<Rightarrow> zero_metrics
           | Inr db_logs \<Rightarrow>
               (case dashboard_response (campaigns db) (email_logs db_logs) of
                  Inl e \<Rightarrow> zero_metrics
                | Inr metrics \<Rightarrow> metrics)))"

definition update_campaign_targets ::
  "WorkflowService \<Rightarrow> datetime \<Rightarrow> string \<Rightarrow> CampaignTargets \<Rightarrow> bool \<times> WorkflowService" where
  "update_campaign_targets s now cname tgts =
     (case get_collection (mongodb_client s) ''campaigns'' of
        Inl e \<Rightarrow> (False, s)
      | Inr db \<Rightarrow>
          (let result = update_one (campaigns db) cname
                          (\<lambda>d. d\<lparr>targets := tgts, updated_at := now\<rparr>)
           in (snd result > 0, s\<lparr>mongodb_client := Some (db\<lparr>campaigns := fst result\<rparr>)\<rparr>)))"

section \<open>Contact directory (services/contact\_service.py)\<close>

record Contact =
  contact_name :: string
  contact_email :: string
  role :: string
  location :: "string option"
  tags :: "string list"
  engagement_opened :: int
  engagement_clicked :: int
  engagement_replied :: int

text \<open>The contacts collection of the driver; \<open>find_ok\<close> tells whether a query returns or
  raises.\<close>

record contact_collection =
  find_ok :: bool
  contacts :: "Contact list"

record ContactService =
  collection :: "contact_collection option"

text \<open>
  The truth value of \<open>self.collection\<close>, as \<open>if not self.collection:\<close> takes it: \<open>None\<close>
  is falsy, and a collection object of the driver refuses the test with
  \<open>NotImplementedError\<close>.
\<close>

definition collection_truth :: "contact_collection option \<Rightarrow> error + bool" where
  "collection_truth c = (case c of None \<Rightarrow> Inr False | Some col \<Rightarrow> Inl NotImplementedError)"

text \<open>\<open>get_contacts_by_tag\<close>: the truth test of line 203 stands before the \<open>try\<close>, so its
  exception leaves the function; an exception of the query gives the empty list.\<close>

definition get_contacts_by_tag :: "ContactService \<Rightarrow> string \<Rightarrow> error + Contact list" where
  "get_contacts_by_tag cs tag =
     (case collection_truth (collection cs) of
        Inl e \<Rightarrow> Inl e
      | Inr present \<Rightarrow>
          if \<not> present then Inr []
          else (case collection cs of
                  None \<Rightarrow> Inr []
                | Some col \<Rightarrow>
                    if find_ok col
                    then Inr (filter (\<lambda>c. tag \<in> set (tags c)) (contacts col))
                    else Inr []))"

text \<open>\<open>find().limit(limit)\<close>: a limit of 0 means no limit. Without a collection the call
  raises inside the \<open>try\<close> and the result is the empty list.\<close>

definition get_all_contacts :: "ContactService \<Rightarrow> nat \<Rightarrow> Contact list" where
  "get_all_contacts cs limit =
     (case collection cs of
        None \<Rightarrow> []
      | Some col \<Rightarrow>
          if find_ok col
          then (if limit = 0 then contacts col else take limit (contacts col))
          else [])"

text \<open>
  Lines 323-331 of \<open>_send_campaign_emails\<close>. \<open>audience_segments\<close> defaults to \<open>None\<close>;
  \<open>None\<close> and the empty list are both falsy. \<open>get_all_contacts()\<close> is called with its
  default \<open>limit=100\<close>.
\<close>

fun extend_contacts ::
  "ContactService \<Rightarrow> string list \<Rightarrow> Contact list \<Rightarrow> error + Contact list" where
  "extend_contacts cs [] acc = Inr acc"
| "extend_contacts cs (segment # segments) acc =
     (case get_contacts_by_tag cs segment of
        Inl e \<Rightarrow> Inl e
      | Inr segment_contacts \<Rightarrow> extend_contacts cs segments (acc @ segment_contacts))"

definition resolve_contacts ::
  "ContactService \<Rightarrow> string list option \<Rightarrow> error + Contact list" where
  "resolve_contacts cs audience_segments =
     (case audience_segments of
        None \<Rightarrow> Inr (get_all_contacts cs 100)
      | Some [] \<Rightarrow> Inr (get_all_contacts cs 100)
      | Some (segment # segments) \<Rightarrow> extend_contacts cs (segment # segments) [])"

text \<open>
  Lines 310-335 of \<open>_send_campaign_emails\<close>: the campaign is looked up, then the contacts
  are resolved. The result is the list of contacts the function goes on to write to
  (lines 337-391, not modelled); it is empty when the function returns early or when an
  exception reaches the outer \<open>except\<close>, which logs it and returns.
\<close>

definition send_campaign_emails ::
  "WorkflowService \<Rightarrow> ContactService \<Rightarrow> string \<Rightarrow> string \<Rightarrow> string list option
     \<Rightarrow> Contact list" where
  "send_campaign_emails s cs cname etype audience_segments =
     (case get_collection (mongodb_client s) ''campaigns'' of
        Inl e \<Rightarrow> []
      | Inr db \<Rightarrow>
          (case find (\<lambda>d. name d = cname) (campaigns db) of
             None \<Rightarrow> []
           | Some campaign \<Rightarrow>
               (case resolve_contacts cs audience_segments of
                  Inl e \<Rightarrow> []
                | Inr found \<Rightarrow> found)))"

section \<open>Transport (services/smtp\_service.py)\<close>

text \<open>
  \<open>send_email(to_email, subject, body, from_email)\<close> catches every exception of the SMTP
  exchange and returns the message id, or \<open>None\<close> on failure. It is a parameter here.
  An entry of the batch is a dictionary from strings to strings.
\<close>

type_synonym email_data = "string \<rightharpoonup> string"

type_synonym transport = "string \<Rightarrow> string \<Rightarrow> string \<Rightarrow> string option \<Rightarrow> string option"

definition truthy :: "string option \<Rightarrow> bool" where
  "truthy m = (case m of None \<Rightarrow> False | Some v \<Rightarrow> v \<noteq> [])"

definition get_default :: "email_data \<Rightarrow> string \<Rightarrow> string \<Rightarrow> string" where
  "get_default d k dflt = (case d k of None \<Rightarrow> dflt | Some v \<Rightarrow> v)"

text \<open>The \<open>try\<close> block of the loop body: a missing key raises \<open>KeyError\<close> with that key.\<close>

definition try_send :: "transport \<Rightarrow> datetime \<Rightarrow> email_data \<Rightarrow> string + EmailLog" where
  "try_send send_email now d =
     (case d ''to'' of
        None \<Rightarrow> Inl ''to''
      | Some to_email \<Rightarrow>
     (case d ''subject'' of
        None \<Rightarrow> Inl ''subject''
      | Some subject \<Rightarrow>
     (case d ''body'' of
        None \<Rightarrow> Inl ''body''
      | Some body \<Rightarrow>
          (let mid = send_email to_email subject body (d ''from'')
           in Inr \<lparr>campaign_name = get_default d ''campaign_name'' [],
                   email = to_email,
                   email_type = get_default d ''email_type'' [],
                   email_status = (if truthy mid then SENT else FAILED),
                   timestamp = now,
                   message_id = mid,
                   error_message = (if truthy mid then None else Some ''Failed to send email''),
                   retry_count = 0\<rparr>))))"

text \<open>The loop body with its \<open>except\<close> branch, which reads \<open>email_data['to']\<close> again;
  \<open>str(e)\<close> of a \<open>KeyError\<close> is the key between single quotes.\<close>

definition send_one :: "transport \<Rightarrow> datetime \<Rightarrow> email_data \<Rightarrow> error + EmailLog" where
  "send_one send_email now d =
     (case try_send send_email now d of
        Inr log_entry \<Rightarrow> Inr log_entry
      | Inl key \<Rightarrow>
          (case d ''to'' of
             None \<Rightarrow> Inl KeyError
           | Some to_email \<Rightarrow>
               Inr \<lparr>campaign_name = get_default d ''campaign_name'' [],
                    email = to_email,
                    email_type = get_default d ''email_type'' [],
                    email_status = FAILED,
                    timestamp = now,
                    message_id = None,
                    error_message = Some ([CHR 0x27] @ key @ [CHR 0x27]),
                    retry_count = 0\<rparr>))"

fun send_bulk_emails :: "transport \<Rightarrow> datetime \<Rightarrow> email_data list \<Rightarrow> error + EmailLog list" where
  "send_bulk_emails send_email now [] = Inr []"
| "send_bulk_emails send_email now (d # ds) =
     (case send_one send_email now d of
        Inl e \<Rightarrow> Inl e
      | Inr log_entry \<Rightarrow>
          (case send_bulk_emails send_email now ds of
             Inl e \<Rightarrow> Inl e
           | Inr logs \<Rightarrow> Inr (log_entry # logs)))"

section \<open>Notions used to state the properties\<close>

definition jobs_with_id :: "WorkflowService \<Rightarrow> string \<Rightarrow> Job list" where
  "jobs_with_id s i = filter (\<lambda>j. job_id j = i) (scheduler_jobs s)"

definition stage_names :: "string list" where
  "stage_names = [''invite'', ''reminder'', ''thank_you'', ''follow_up'']"

definition stage_time :: "WorkflowPlan \<Rightarrow> string \<Rightarrow> datetime option" where
  "stage_time plan st =
     (if st = ''invite'' then invite plan
      else if st = ''reminder'' then reminder plan
      else if st = ''thank_you'' then thank_you plan
      else if st = ''follow_up'' then follow_up plan
      else None)"

definition stage_job :: "string \<Rightarrow> string \<Rightarrow> datetime \<Rightarrow> string list option \<Rightarrow> Job" where
  "stage_job cn st t segs =
     \<lparr>job_id = cn @ ''_'' @ st, run_date = t, next_run_time = Some t, args = (cn, st, segs)\<rparr>"

text \<open>\<open>WorkflowService.__init__\<close>: a fresh service has no job.\<close>

definition new_service :: "mongodb option \<Rightarrow> WorkflowService" where
  "new_service client = \<lparr>mongodb_client = client, scheduler_jobs = []\<rparr>"

text \<open>A sequence of \<open>schedule_campaign\<close> calls, each on the state the previous one left.\<close>

type_synonym schedule_call =
  "datetime \<times> string \<times> WorkflowPlan \<times> CampaignTargets \<times> string list option"

fun run_schedules :: "WorkflowService \<Rightarrow> schedule_call list \<Rightarrow> WorkflowService" where
  "run_schedules s [] = s"
| "run_schedules s ((now, cn, plan, tg, segs) # calls) =
     run_schedules (snd (schedule_campaign s now cn plan tg segs)) calls"

subsection \<open>Example states\<close>

definition default_targets :: CampaignTargets where
  "default_targets = \<lparr>total_registrations = 0, total_emails_sent = 0,
                       open_rate_target = 0.25, click_rate_target = 0.05\<rparr>"

definition invite_only :: "datetime \<Rightarrow> WorkflowPlan" where
  "invite_only t = \<lparr>invite = Some t, reminder = None, thank_you = None, follow_up = None\<rparr>"

definition empty_db :: mongodb where
  "empty_db = \<lparr>job_writes_ok = (\<lambda>i. True), campaigns = [], email_logs = []\<rparr>"

text \<open>A service with a client after one successful \<open>schedule_campaign\<close> call.\<close>

definition launch_service :: WorkflowService where
  "launch_service =
     snd (schedule_campaign (new_service (Some empty_db)) 0 ''Launch'' (invite_only 60)
            default_targets None)"

definition sent_log :: "string \<Rightarrow> string \<Rightarrow> bool \<Rightarrow> email_log_doc" where
  "sent_log cn addr op =
     \<lparr>doc_log = \<lparr>campaign_name = cn, email = addr, email_type = ''invite'',
                  email_status = SENT, timestamp = 0, message_id = Some ''smpt_0'',
                  error_message = None, retry_count = 0\<rparr>,
      opened = op, clicked = False\<rparr>"

definition campaign_doc :: "string \<Rightarrow> CampaignTargets \<Rightarrow> datetime \<Rightarrow> Campaign" where
  "campaign_doc cn tg t =
     \<lparr>name = cn, title = cn, description = None, status = SCHEDULED,
      workflow_plan = invite_only 60, targets = tg, created_at = t, updated_at = t,
      created_by = Some ''system''\<rparr>"

text \<open>A service whose database holds the given campaign and log documents.\<close>

definition service_with :: "Campaign list \<Rightarrow> email_log_doc list \<Rightarrow> WorkflowService" where
  "service_with cs logs =
     \<lparr>mongodb_client = Some \<lparr>job_writes_ok = (\<lambda>i. True), campaigns = cs, email_logs = logs\<rparr>,
      scheduler_jobs = []\<rparr>"

text \<open>The example of the specification: campaign A with 100 mails sent, 25 of them opened,
  and campaign B with none.\<close>

definition spec_example_logs :: "email_log_doc list" where
  "spec_example_logs =
     replicate 25 (sent_log ''A'' ''a@x.org'' True) @ replicate 75 (sent_log ''A'' ''a@x.org'' False)"

definition spec_example_service :: WorkflowService where
  "spec_example_service =
     service_with [campaign_doc ''A'' default_targets 0, campaign_doc ''B'' default_targets 0]
       spec_example_logs"

text \<open>A stored campaign without any log.\<close>

definition stored_service :: WorkflowService where
  "stored_service = service_with [campaign_doc ''A'' default_targets 0] []"

definition tagged_contact :: "string \<Rightarrow> string list \<Rightarrow> Contact" where
  "tagged_contact addr ts =
     \<lparr>contact_name = addr, contact_email = addr, role = ''school'', location = None,
      tags = ts, engagement_opened = 0, engagement_clicked = 0, engagement_replied = 0\<rparr>"

definition directory :: "Contact list \<Rightarrow> ContactService" where
  "directory cs = \<lparr>collection = Some \<lparr>find_ok = True, contacts = cs\<rparr>\<rparr>"

definition failing_transport :: transport where
  "failing_transport to_email subject body from_email =
     (if to_email = ''bad@x.org'' then None else Some (''smpt_'' @ to_email))"

definition mail :: "string \<Rightarrow> email_data" where
  "mail addr = [''to'' \<mapsto> addr, ''subject'' \<mapsto> ''Hello'', ''body'' \<mapsto> ''Text'']"

section \<open>The specification's reading of the dashboard averages\<close>

text \<open>
  The sent mails of one campaign, its rate among them, and the specification's average:
  the mean of the rates of the campaigns that have sent mail.
\<close>

definition is_sent :: "email_log_doc \<Rightarrow> bool" where
  "is_sent l = (email_status (doc_log l) = SENT)"

definition campaign_sent_logs :: "email_log_doc list \<Rightarrow> string \<Rightarrow> email_log_doc list" where
  "campaign_sent_logs logs cn =
     filter (\<lambda>l. campaign_name (doc_log l) = cn) (filter is_sent logs)"

definition campaign_rate ::
  "(email_log_doc \<Rightarrow> bool) \<Rightarrow> email_log_doc list \<Rightarrow> string \<Rightarrow> real" where
  "campaign_rate flag logs cn =
     real (length (filter flag (campaign_sent_logs logs cn))) /
       real (length (campaign_sent_logs logs cn))"

definition spec_average_rate ::
  "(email_log_doc \<Rightarrow> bool) \<Rightarrow> string list \<Rightarrow> email_log_doc list \<Rightarrow> real" where
  "spec_average_rate flag names logs =
     (let sending = filter (\<lambda>cn. campaign_sent_logs logs cn \<noteq> []) names
      in if sending = [] then 0
         else sum_list (map (campaign_rate flag logs) sending) / real (length sending))"

text \<open>Whether the transport delivers an entry of a batch.\<close>

definition delivered :: "transport \<Rightarrow> email_data \<Rightarrow> bool" where
  "delivered send_email d =
     (case d ''to'' of
        None \<Rightarrow> False
      | Some to_email \<Rightarrow>
     (case d ''subject'' of
        None \<Rightarrow> False
      | Some subject \<Rightarrow>
     (case d ''body'' of
        None \<Rightarrow> False
      | Some body \<Rightarrow> truthy (send_email to_email subject body (d ''from'')))))"

section \<open>Properties\<close>

subsection \<open>Auxiliary facts about the job store\<close>

lemma accepts_save_campaign [simp]:
  "job_store_accepts (save_campaign s c) = job_store_accepts s"
  by (auto simp: save_campaign_def job_store_accepts_def get_collection_def fun_eq_iff
      split: option.splits sum.splits if_splits)

lemma add_job_accepts:
  "add_job s j = Inr s' \<Longrightarrow> job_store_accepts s' = job_store_accepts s"
  by (auto simp: add_job_def job_store_accepts_def fun_eq_iff split: if_splits)

lemma schedule_stage_accepts:
  "schedule_stage s cn st run segs = Inr s' \<Longrightarrow> job_store_accepts s' = job_store_accepts s"
  by (auto simp: schedule_stage_def split: option.splits dest: add_job_accepts)

lemma schedule_stage_Inr_iff:
  "(\<exists>s'. schedule_stage s cn st run segs = Inr s') \<longleftrightarrow>
     (run \<noteq> None \<longrightarrow> job_store_accepts s (cn @ ''_'' @ st))"
  by (auto simp: schedule_stage_def add_job_def split: option.splits)

lemma schedule_stage_cases:
  obtains (fail) "run \<noteq> None" "\<not> job_store_accepts s (cn @ ''_'' @ st)"
      "schedule_stage s cn st run segs = Inl JobStoreError"
  | (ok) s' where "run \<noteq> None \<longrightarrow> job_store_accepts s (cn @ ''_'' @ st)"
      "schedule_stage s cn st run segs = Inr s'"
proof (cases "run \<noteq> None \<and> \<not> job_store_accepts s (cn @ ''_'' @ st)")
  case True
  then have "schedule_stage s cn st run segs = Inl JobStoreError"
    by (auto simp: schedule_stage_def add_job_def)
  with True show ?thesis using fail by blast
next
  case False
  then obtain s' where "schedule_stage s cn st run segs = Inr s'"
    using schedule_stage_Inr_iff [of s cn st run segs] by blast
  with False show ?thesis using ok by blast
qed

lemma schedule_campaign_fst_iff:
  "fst (schedule_campaign s now cn plan tg segs) \<longleftrightarrow>
     (\<forall>st \<in> set stage_names. stage_time plan st \<noteq> None \<longrightarrow> job_store_accepts s (cn @ ''_'' @ st))"
proof -
  let ?s0 = "save_campaign s \<lparr>name = cn, title = cn, description = None, status = SCHEDULED,
                       workflow_plan = plan, targets = tg, created_at = now,
                       updated_at = now, created_by = Some ''system''\<rparr>"
  have a0: "job_store_accepts ?s0 = job_store_accepts s" by simp
  show ?thesis
  proof (cases rule: schedule_stage_cases [of "invite plan" ?s0 cn "''invite''" segs])
    case fail
    then show ?thesis by (simp add: schedule_campaign_def stage_names_def stage_time_def)
  next
    case (ok s1)
    note ok1 = ok
    have a1: "job_store_accepts s1 = job_store_accepts s"
      using schedule_stage_accepts [OF ok(2)] by simp
    show ?thesis
    proof (cases rule: schedule_stage_cases [of "reminder plan" s1 cn "''reminder''" segs])
      case fail
      then show ?thesis using ok1 a1 by (simp add: schedule_campaign_def stage_names_def stage_time_def)
    next
      case (ok s2)
      note ok2 = ok
      have a2: "job_store_accepts s2 = job_store_accepts s"
        using schedule_stage_accepts [OF ok(2)] a1 by simp
      show ?thesis
      proof (cases rule: schedule_stage_cases [of "thank_you plan" s2 cn "''thank_you''" segs])
        case fail
        then show ?thesis using ok1 ok2 a1 a2
          by (simp add: schedule_campaign_def stage_names_def stage_time_def)
      next
        case (ok s3)
        note ok3 = ok
        have a3: "job_store_accepts s3 = job_store_accepts s"
          using schedule_stage_accepts [OF ok(2)] a2 by simp
        show ?thesis
        proof (cases rule: schedule_stage_cases [of "follow_up plan" s3 cn "''follow_up''" segs])
          case fail
          then show ?thesis using ok1 ok2 ok3 a1 a2 a3
            by (simp add: schedule_campaign_def stage_names_def stage_time_def)
        next
          case (ok s4)
          then show ?thesis using ok1 ok2 ok3 a1 a2 a3
            by (simp add: schedule_campaign_def stage_names_def stage_time_def)
        qed
      qed
    qed
  qed
qed

lemma filter_key_distinct:
  "distinct (map f xs) \<Longrightarrow> length (filter (\<lambda>x. f x = a) xs) \<le> 1"
proof (induction xs)
  case Nil
  then show ?case by simp
next
  case (Cons x xs)
  show ?case
  proof (cases "f x = a")
    case True
    with Cons.prems have "a \<notin> f ` set xs" by simp
    then have "filter (\<lambda>y. f y = a) xs = []"
      unfolding filter_empty_conv by blast
    with True show ?thesis by simp
  next
    case False
    with Cons show ?thesis by simp
  qed
qed

lemma filter_key_single:
  "distinct (map f xs) \<Longrightarrow> a \<in> set (map f xs) \<Longrightarrow> length (filter (\<lambda>x. f x = a) xs) = 1"
proof (induction xs)
  case Nil
  then show ?case by simp
next
  case (Cons x xs)
  show ?case
  proof (cases "f x = a")
    case True
    with Cons.prems have "a \<notin> f ` set xs" by simp
    then have "filter (\<lambda>y. f y = a) xs = []"
      unfolding filter_empty_conv by blast
    with True show ?thesis by simp
  next
    case False
    with Cons show ?thesis by simp
  qed
qed

lemma save_campaign_jobs [simp]:
  "scheduler_jobs (save_campaign s c) = scheduler_jobs s"
  by (auto simp: save_campaign_def split: option.splits sum.splits)

lemma replace_ids:
  "map job_id (map (\<lambda>k. if job_id k = job_id j then j else k) js) = map job_id js"
  by (induction js) auto

lemma add_job_ids:
  "add_job s j = Inr s' \<Longrightarrow>
     map job_id (scheduler_jobs s') =
       (if job_id j \<in> set (map job_id (scheduler_jobs s)) then map job_id (scheduler_jobs s)
        else map job_id (scheduler_jobs s) @ [job_id j])"
proof (cases "job_id j \<in> set (map job_id (scheduler_jobs s))")
  case True
  assume "add_job s j = Inr s'"
  with True have "s' = s\<lparr>scheduler_jobs :=
      map (\<lambda>k. if job_id k = job_id j then j else k) (scheduler_jobs s)\<rparr>"
    by (simp add: add_job_def split: if_splits)
  then have "map job_id (scheduler_jobs s') = map job_id (scheduler_jobs s)"
    using replace_ids [of j "scheduler_jobs s"] by simp
  with True show ?thesis by simp
next
  case False
  assume "add_job s j = Inr s'"
  with False have "s' = s\<lparr>scheduler_jobs := scheduler_jobs s @ [j]\<rparr>"
    by (simp add: add_job_def split: if_splits)
  with False show ?thesis by simp
qed

lemma add_job_distinct:
  "add_job s j = Inr s' \<Longrightarrow> distinct (map job_id (scheduler_jobs s))
     \<Longrightarrow> distinct (map job_id (scheduler_jobs s'))"
  using add_job_ids [of s j s'] by (auto split: if_splits)

lemma replace_filter_other:
  "i \<noteq> job_id j \<Longrightarrow>
     filter (\<lambda>k. job_id k = i) (map (\<lambda>k. if job_id k = job_id j then j else k) js)
       = filter (\<lambda>k. job_id k = i) js"
  by (induction js) auto

lemma replace_filter_same:
  "filter (\<lambda>k. job_id k = job_id j) (map (\<lambda>k. if job_id k = job_id j then j else k) js)
       = replicate (length (filter (\<lambda>k. job_id k = job_id j) js)) j"
  by (induction js) auto

lemma add_job_cases:
  assumes "add_job s j = Inr s'"
  obtains (replace) "job_id j \<in> set (map job_id (scheduler_jobs s))"
      "scheduler_jobs s' = map (\<lambda>k. if job_id k = job_id j then j else k) (scheduler_jobs s)"
  | (append) "job_id j \<notin> set (map job_id (scheduler_jobs s))"
      "scheduler_jobs s' = scheduler_jobs s @ [j]"
proof (cases "job_id j \<in> set (map job_id (scheduler_jobs s))")
  case True
  with assms have "s' = s\<lparr>scheduler_jobs :=
      map (\<lambda>k. if job_id k = job_id j then j else k) (scheduler_jobs s)\<rparr>"
    by (simp add: add_job_def split: if_splits)
  then have "scheduler_jobs s' =
      map (\<lambda>k. if job_id k = job_id j then j else k) (scheduler_jobs s)" by simp
  with True show ?thesis by (rule replace)
next
  case False
  with assms have "s' = s\<lparr>scheduler_jobs := scheduler_jobs s @ [j]\<rparr>"
    by (simp add: add_job_def split: if_splits)
  then have "scheduler_jobs s' = scheduler_jobs s @ [j]" by simp
  with False show ?thesis by (rule append)
qed

lemma add_job_other:
  assumes "add_job s j = Inr s'" "i \<noteq> job_id j"
  shows "jobs_with_id s' i = jobs_with_id s i"
  using assms(1)
proof (cases rule: add_job_cases)
  case replace
  then show ?thesis using assms(2) by (simp add: jobs_with_id_def replace_filter_other)
next
  case append
  then show ?thesis using assms(2) by (simp add: jobs_with_id_def)
qed

lemma add_job_same:
  assumes "add_job s j = Inr s'" "distinct (map job_id (scheduler_jobs s))"
  shows "jobs_with_id s' (job_id j) = [j]"
  using assms(1)
proof (cases rule: add_job_cases)
  case replace
  have "length (filter (\<lambda>k. job_id k = job_id j) (scheduler_jobs s)) = 1"
    using assms(2) replace(1) by (rule filter_key_single)
  then show ?thesis using replace(2)
    by (simp add: jobs_with_id_def replace_filter_same)
next
  case append
  then have "job_id j \<notin> job_id ` set (scheduler_jobs s)" by simp
  then have "\<forall>k\<in>set (scheduler_jobs s). job_id k \<noteq> job_id j"
    by (metis image_eqI)
  then have "filter (\<lambda>k. job_id k = job_id j) (scheduler_jobs s) = []"
    unfolding filter_empty_conv .
  then show ?thesis using append(2) by (simp add: jobs_with_id_def)
qed

lemma schedule_stage_distinct:
  "schedule_stage s cn st run segs = Inr s' \<Longrightarrow> distinct (map job_id (scheduler_jobs s))
     \<Longrightarrow> distinct (map job_id (scheduler_jobs s'))"
  by (auto simp: schedule_stage_def split: option.splits dest: add_job_distinct)

lemma schedule_stage_jobs:
  assumes "schedule_stage s cn st run segs = Inr s'" "distinct (map job_id (scheduler_jobs s))"
  shows "jobs_with_id s' i =
           (if i = cn @ ''_'' @ st
            then (case run of None \<Rightarrow> jobs_with_id s i | Some t \<Rightarrow> [stage_job cn st t segs])
            else jobs_with_id s i)"
proof (cases run)
  case None
  with assms show ?thesis by (simp add: schedule_stage_def)
next
  case (Some t)
  with assms(1) have a: "add_job s (stage_job cn st t segs) = Inr s'"
    by (simp add: schedule_stage_def stage_job_def)
  have i: "job_id (stage_job cn st t segs) = cn @ ''_'' @ st" by (simp add: stage_job_def)
  show ?thesis
    using add_job_same [OF a assms(2)] add_job_other [OF a, of i] Some by (simp add: i)
qed

lemma schedule_campaign_chain:
  assumes "schedule_campaign s now cn plan tg segs = (True, s')"
  obtains c s1 s2 s3 where
    "schedule_stage (save_campaign s c) cn ''invite'' (invite plan) segs = Inr s1"
    "schedule_stage s1 cn ''reminder'' (reminder plan) segs = Inr s2"
    "schedule_stage s2 cn ''thank_you'' (thank_you plan) segs = Inr s3"
    "schedule_stage s3 cn ''follow_up'' (follow_up plan) segs = Inr s'"
  using assms by (auto simp: schedule_campaign_def Let_def split: sum.splits)

lemma schedule_campaign_distinct:
  assumes "distinct (map job_id (scheduler_jobs s))"
  shows "distinct (map job_id (scheduler_jobs (snd (schedule_campaign s now cn plan tg segs))))"
proof -
  let ?c = "\<lparr>name = cn, title = cn, description = None, status = SCHEDULED,
                       workflow_plan = plan, targets = tg, created_at = now,
                       updated_at = now, created_by = Some ''system''\<rparr>"
  have d0: "distinct (map job_id (scheduler_jobs (save_campaign s ?c)))" using assms by simp
  show ?thesis
    using d0 unfolding schedule_campaign_def Let_def
    by (auto split: sum.splits dest!: schedule_stage_distinct)
qed

lemma schedule_campaign_success_jobs:
  assumes ok: "schedule_campaign s now cn plan tg segs = (True, s')"
    and d: "distinct (map job_id (scheduler_jobs s))"
  shows "jobs_with_id s' i =
     (if i = cn @ ''_invite'' then (case invite plan of None \<Rightarrow> jobs_with_id s i | Some t \<Rightarrow> [stage_job cn ''invite'' t segs])
      else if i = cn @ ''_reminder'' then (case reminder plan of None \<Rightarrow> jobs_with_id s i | Some t \<Rightarrow> [stage_job cn ''reminder'' t segs])
      else if i = cn @ ''_thank_you'' then (case thank_you plan of None \<Rightarrow> jobs_with_id s i | Some t \<Rightarrow> [stage_job cn ''thank_you'' t segs])
      else if i = cn @ ''_follow_up'' then (case follow_up plan of None \<Rightarrow> jobs_with_id s i | Some t \<Rightarrow> [stage_job cn ''follow_up'' t segs])
      else jobs_with_id s i)"
proof -
  from ok obtain c s1 s2 s3 where
    c1: "schedule_stage (save_campaign s c) cn ''invite'' (invite plan) segs = Inr s1" and
    c2: "schedule_stage s1 cn ''reminder'' (reminder plan) segs = Inr s2" and
    c3: "schedule_stage s2 cn ''thank_you'' (thank_you plan) segs = Inr s3" and
    c4: "schedule_stage s3 cn ''follow_up'' (follow_up plan) segs = Inr s'"
    by (rule schedule_campaign_chain)
  have d0: "distinct (map job_id (scheduler_jobs (save_campaign s c)))" using d by simp
  have d1: "distinct (map job_id (scheduler_jobs s1))" by (rule schedule_stage_distinct [OF c1 d0])
  have d2: "distinct (map job_id (scheduler_jobs s2))" by (rule schedule_stage_distinct [OF c2 d1])
  have d3: "distinct (map job_id (scheduler_jobs s3))" by (rule schedule_stage_distinct [OF c3 d2])
  have j0: "\<And>k. jobs_with_id (save_campaign s c) k = jobs_with_id s k"
    by (simp add: jobs_with_id_def)
  note j1 = schedule_stage_jobs [OF c1 d0]
  note j2 = schedule_stage_jobs [OF c2 d1]
  note j3 = schedule_stage_jobs [OF c3 d2]
  note j4 = schedule_stage_jobs [OF c4 d3]
  show ?thesis
    by (simp add: j4 j3 j2 j1 j0 split: option.splits)
qed

lemma schedule_campaign_stage_jobs:
  assumes ok: "schedule_campaign s now cn plan tg segs = (True, s')"
    and d: "distinct (map job_id (scheduler_jobs s))"
  shows "\<forall>st \<in> set stage_names.
          jobs_with_id s' (cn @ ''_'' @ st) =
            (case stage_time plan st of
               Some t \<Rightarrow> [stage_job cn st t segs]
             | None \<Rightarrow> jobs_with_id s (cn @ ''_'' @ st))"
  by (simp add: stage_names_def stage_time_def schedule_campaign_success_jobs [OF ok d]
      split: option.splits)

lemma run_schedules_snoc:
  "run_schedules s (calls @ [(now, cn, plan, tg, segs)]) =
     snd (schedule_campaign (run_schedules s calls) now cn plan tg segs)"
  by (induction calls arbitrary: s) auto

lemma run_schedules_distinct:
  "distinct (map job_id (scheduler_jobs s))
     \<Longrightarrow> distinct (map job_id (scheduler_jobs (run_schedules s calls)))"
proof (induction calls arbitrary: s)
  case Nil
  then show ?case by simp
next
  case (Cons c calls)
  obtain now cn plan tg segs where c: "c = (now, cn, plan, tg, segs)"
    by (cases c) auto
  have "distinct (map job_id (scheduler_jobs (snd (schedule_campaign s now cn plan tg segs))))"
    using Cons.prems by (rule schedule_campaign_distinct)
  then show ?case using Cons.IH c by simp
qed

subsection \<open>C1: the result of schedule\_campaign\<close>




subsection \<open>C4: one job per stage with a timestamp\<close>



subsection \<open>C5: scheduling again replaces\<close>

text \<open>
  C5. After any sequence of \<open>schedule_campaign\<close> calls on a fresh service, no job id
  (so no pair of campaign and stage) has more than one job; and after one more call that
  succeeds, each stage that call gave a timestamp has exactly the job of that call: the
  last timestamp wins.
\<close>
theorem reschedule_replaces_job:
  "(\<forall>i. length (jobs_with_id (run_schedules (new_service client) calls) i) \<le> 1) \<and>
   (\<forall>st \<in> set stage_names. \<forall>t.
      fst (schedule_campaign (run_schedules (new_service client) calls) now cn plan tg segs) \<and>
      stage_time plan st = Some t \<longrightarrow>
        jobs_with_id (run_schedules (new_service client) (calls @ [(now, cn, plan, tg, segs)]))
          (cn @ ''_'' @ st) = [stage_job cn st t segs])"
proof -
  have d0: "distinct (map job_id (scheduler_jobs (new_service client)))"
    by (simp add: new_service_def)
  have d: "distinct (map job_id (scheduler_jobs (run_schedules (new_service client) calls)))"
    using d0 by (rule run_schedules_distinct)
  have one: "\<forall>i. length (jobs_with_id (run_schedules (new_service client) calls) i) \<le> 1"
    using filter_key_distinct [OF d] by (simp add: jobs_with_id_def)
  have last: "jobs_with_id (run_schedules (new_service client) (calls @ [(now, cn, plan, tg, segs)]))
          (cn @ ''_'' @ st) = [stage_job cn st t segs]"
    if st: "st \<in> set stage_names"
      and ok: "fst (schedule_campaign (run_schedules (new_service client) calls) now cn plan tg segs)"
      and t: "stage_time plan st = Some t" for st t
  proof -
    obtain s' where s': "schedule_campaign (run_schedules (new_service client) calls) now cn plan tg segs
        = (True, s')"
      using ok by (cases "schedule_campaign (run_schedules (new_service client) calls) now cn plan tg segs") auto
    have r: "run_schedules (new_service client) (calls @ [(now, cn, plan, tg, segs)]) = s'"
      by (simp add: run_schedules_snoc s')
    have "jobs_with_id s' (cn @ ''_'' @ st) =
            (case stage_time plan st of
               Some t \<Rightarrow> [stage_job cn st t segs]
             | None \<Rightarrow> jobs_with_id (run_schedules (new_service client) calls) (cn @ ''_'' @ st))"
      using schedule_campaign_stage_jobs [OF s' d] st by (rule bspec)
    then show ?thesis by (simp only: r t option.case)
  qed
  show ?thesis
  proof (intro conjI ballI allI impI)
    fix i
    show "length (jobs_with_id (run_schedules (new_service client) calls) i) \<le> 1"
      using one by (rule spec)
  next
    fix st t
    assume "st \<in> set stage_names"
      and "fst (schedule_campaign (run_schedules (new_service client) calls) now cn plan tg segs) \<and>
           stage_time plan st = Some t"
    then show "jobs_with_id (run_schedules (new_service client) (calls @ [(now, cn, plan, tg, segs)]))
          (cn @ ''_'' @ st) = [stage_job cn st t segs]"
      by (intro last) simp_all
  qed
qed

theorem reschedule_replaces_job_witness:
  "jobs_with_id (run_schedules (new_service None)
       ([(0, ''Launch'', invite_only 60, default_targets, None)] @
        [(1, ''Launch'', invite_only 90, default_targets, None)])) (''Launch'' @ ''_'' @ ''invite'')
     = [stage_job ''Launch'' ''invite'' 90 None]"
proof -
  have ok: "fst (schedule_campaign
      (run_schedules (new_service None) [(0, ''Launch'', invite_only 60, default_targets, None)])
      1 ''Launch'' (invite_only 90) default_targets None)"
    by (simp add: schedule_campaign_fst_iff job_store_accepts_def new_service_def
        schedule_campaign_def save_campaign_def schedule_stage_def add_job_def invite_only_def)
  have st: "''invite'' \<in> set stage_names" by (simp add: stage_names_def)
  have t: "stage_time (invite_only 90) ''invite'' = Some 90"
    by (simp add: stage_time_def invite_only_def)
  show ?thesis
    using reschedule_replaces_job [of None
        "[(0, ''Launch'', invite_only 60, default_targets, None)]" 1 "''Launch''"
        "invite_only 90" default_targets None] ok st t
    by blast
qed

subsection \<open>C9: no document-store client\<close>

text \<open>
  C9. Without a client, \<open>pause_campaign\<close> and \<open>resume_campaign\<close> return \<open>False\<close>
  and leave the service, hence every job, as it was, while \<open>schedule_campaign\<close> in the
  same state returns \<open>True\<close>.
\<close>
theorem no_client_pause_resume_fail:
  assumes "mongodb_client s = None"
  shows "pause_campaign s now cn = (False, s) \<and> resume_campaign s now cn = (False, s) \<and>
         fst (schedule_campaign s now cn plan tg segs) = True"
proof -
  have "fst (schedule_campaign s now cn plan tg segs)"
    using assms by (simp add: schedule_campaign_fst_iff job_store_accepts_def)
  then show ?thesis
    using assms by (simp add: pause_campaign_def resume_campaign_def get_collection_def)
qed

theorem no_client_pause_resume_fail_witness:
  "mongodb_client (new_service None) = None \<and>
   pause_campaign (new_service None) 5 ''Launch'' = (False, new_service None) \<and>
   resume_campaign (new_service None) 5 ''Launch'' = (False, new_service None) \<and>
   fst (schedule_campaign (new_service None) 5 ''Launch'' (invite_only 60) default_targets None) = True"
proof -
  have h: "mongodb_client (new_service None) = None" by (simp add: new_service_def)
  show ?thesis
    using h no_client_pause_resume_fail [OF h, of 5 "''Launch''" "invite_only 60" default_targets None]
    by simp
qed

subsection \<open>Auxiliary facts about the named collection access\<close>

lemma get_collection_Inl: "\<exists>e. get_collection client n = Inl e"
  by (simp add: get_collection_def split: option.splits)

lemma pause_campaign_fails: "pause_campaign s now cn = (False, s)"
  using get_collection_Inl [of "mongodb_client s" "''campaigns''"]
  by (auto simp: pause_campaign_def)

lemma resume_campaign_fails: "resume_campaign s now cn = (False, s)"
  using get_collection_Inl [of "mongodb_client s" "''campaigns''"]
  by (auto simp: resume_campaign_def)

lemma launch_service_eq:
  "launch_service =
     \<lparr>mongodb_client = Some empty_db, scheduler_jobs = [stage_job ''Launch'' ''invite'' 60 None]\<rparr>"
  by (simp add: launch_service_def schedule_campaign_def save_campaign_def get_collection_def
      new_service_def empty_db_def schedule_stage_def add_job_def job_store_accepts_def
      invite_only_def stage_job_def)

subsection \<open>C6: pause then resume\<close>

text \<open>
  C6. In every state, \<open>pause_campaign\<close> followed by \<open>resume_campaign\<close> leaves the
  scheduler's jobs as they were, each with its trigger time \<open>run_date\<close> and its next run
  time. (Both calls fail at the status write, before their job loops, and change nothing.)
\<close>

theorem pause_resume_preserves_timestamps:
  "scheduler_jobs (snd (resume_campaign (snd (pause_campaign s now cn)) now' cn)) = scheduler_jobs s \<and>
   map run_date (scheduler_jobs (snd (resume_campaign (snd (pause_campaign s now cn)) now' cn))) =
     map run_date (scheduler_jobs s)"
  by (simp add: pause_campaign_fails resume_campaign_fails)

theorem pause_resume_preserves_timestamps_witness:
  "scheduler_jobs (snd (resume_campaign (snd (pause_campaign launch_service 1 ''Launch'')) 2 ''Launch''))
     = [stage_job ''Launch'' ''invite'' 60 None]"
  using pause_resume_preserves_timestamps [of launch_service 1 "''Launch''" 2]
  by (simp add: launch_service_eq)

subsection \<open>C10: update\_campaign\_targets\<close>

text \<open>
  C10. \<open>update_campaign_targets\<close> returns \<open>False\<close> and leaves the service as it was, for
  every campaign name and every targets: so it returns \<open>False\<close> when no campaign has the
  name and when the targets are those already stored, and it never returns \<open>True\<close>
  without a changed document. (The call fails at the named collection access.)
\<close>

theorem update_campaign_targets_result:
  "fst (update_campaign_targets s now cn tg) = False \<and>
   snd (update_campaign_targets s now cn tg) = s"
  using get_collection_Inl [of "mongodb_client s" "''campaigns''"]
  by (auto simp: update_campaign_targets_def)

theorem update_campaign_targets_result_witness:
  "fst (update_campaign_targets stored_service 1 ''B'' default_targets) = False \<and>
   fst (update_campaign_targets stored_service 1 ''A'' default_targets) = False \<and>
   fst (update_campaign_targets (snd (update_campaign_targets stored_service 1 ''A'' default_targets))
          2 ''A'' default_targets) = False"
  using update_campaign_targets_result [of stored_service 1 "''B''" default_targets]
    update_campaign_targets_result [of stored_service 1 "''A''" default_targets]
    update_campaign_targets_result [of stored_service 2 "''A''" default_targets]
  by simp

subsection \<open>Auxiliary facts about the rates\<close>

lemma guarded_rate_value: "guarded_rate a b = Inr (if b > 0 then of_int a / of_int b else 0)"
  by (simp add: guarded_rate_def truediv_def)

lemma guarded_progress_value:
  "guarded_progress a b = Inr (if b > 0 then of_int a / of_int b * 100 else 0)"
  by (simp add: guarded_progress_def truediv_def)

lemma count_status_nonneg: "0 \<le> count_status logs st"
  by (simp add: count_status_def)

text \<open>
  Lines 253-301 never divide by zero. The open rate is opened / sent, and 0 when nothing
  was sent; for a target that is not negative the progress is sent / target * 100, and 0
  for the target 0; without logs both are 0.
\<close>

lemma status_response_rates:
  assumes "0 \<le> total_emails_sent (targets campaign)"
  shows "\<exists>r. status_response cn campaign logs jobs = Inr r \<and>
           open_rate r =
             (if count_status logs SENT = 0 then 0
              else real (length (filter opened logs)) / of_int (count_status logs SENT)) \<and>
           progress_percentage r =
             (if total_emails_sent (targets campaign) = 0 then 0
              else of_int (count_status logs SENT) / of_int (total_emails_sent (targets campaign)) * 100) \<and>
           (logs = [] \<longrightarrow> open_rate r = 0 \<and> progress_percentage r = 0)"
  using assms count_status_nonneg [of logs SENT]
  by (auto simp: status_response_def Let_def guarded_rate_value guarded_progress_value
      count_status_def)

subsection \<open>C7: get\_campaign\_status at a stored campaign\<close>

text \<open>
  C7. For a stored campaign without logs,
  \<open>get_campaign_status\<close> returns \<open>None\<close>, not a response with open rate 0 and progress 0:
  the named collection access of line 241 raises, and the \<open>except\<close> of line 303 returns
  \<open>None\<close>.
\<close>

theorem campaign_status_unavailable:
  "get_campaign_status (service_with [campaign_doc ''A'' default_targets 0] []) ''A'' = None"
  by (simp add: get_campaign_status_def service_with_def get_collection_def)

subsection \<open>C2: get\_dashboard\_metrics at the specification's example\<close>

lemma spec_example_sent: "filter is_sent spec_example_logs = spec_example_logs"
  by (simp add: spec_example_logs_def is_sent_def sent_log_def)

lemma spec_example_A:
  "campaign_sent_logs spec_example_logs ''A'' = spec_example_logs"
  unfolding campaign_sent_logs_def spec_example_sent
  by (simp add: spec_example_logs_def sent_log_def)

lemma spec_example_B:
  "campaign_sent_logs spec_example_logs ''B'' = []"
  unfolding campaign_sent_logs_def spec_example_sent
  by (simp add: spec_example_logs_def sent_log_def)

lemma spec_example_opened:
  "length (filter opened spec_example_logs) = 25" "length spec_example_logs = 100"
  by (simp_all add: spec_example_logs_def sent_log_def)

text \<open>
  C2. On a database with the specification's example
  (campaign A: 100 mails sent, 25 opened; campaign B: none) the mean of the campaigns'
  rates is 1/4, and \<open>get_dashboard_metrics\<close> returns the average open rate 0: the named
  collection access of line 399 raises, and the \<open>except\<close> of line 436 returns the
  all-zero metrics.
\<close>

theorem dashboard_average_unavailable:
  "average_open_rate (get_dashboard_metrics spec_example_service) = 0 \<and>
   spec_average_rate opened [''A'', ''B''] spec_example_logs = 1 / 4"
proof -
  have "average_open_rate (get_dashboard_metrics spec_example_service) = 0"
    by (simp add: get_dashboard_metrics_def spec_example_service_def service_with_def
        get_collection_def zero_metrics_def)
  moreover have "spec_example_logs \<noteq> []"
    using spec_example_opened(2) by auto
  then have "spec_average_rate opened [''A'', ''B''] spec_example_logs = 1 / 4"
    by (simp add: spec_average_rate_def spec_example_A spec_example_B campaign_rate_def
        spec_example_opened)
  ultimately show ?thesis by simp
qed

subsection \<open>C3: the contacts of a dispatch\<close>

text \<open>
  C3. With one contact tagged \<open>engaged\<close> in the
  directory and the campaign stored, a dispatch resolves no contact at all, with the
  segment \<open>engaged\<close> as without segments: the named collection access of line 314 raises
  and the \<open>except\<close> of line 393 ends the dispatch. The lookup by tag itself raises at the
  truth test of the collection.
\<close>

theorem dispatch_resolves_nobody:
  "send_campaign_emails stored_service (directory [tagged_contact ''p@x.org'' [''engaged'']])
     ''A'' ''invite'' (Some [''engaged'']) = [] \<and>
   send_campaign_emails stored_service (directory [tagged_contact ''p@x.org'' [''engaged'']])
     ''A'' ''invite'' None = [] \<and>
   get_contacts_by_tag (directory [tagged_contact ''p@x.org'' [''engaged'']]) ''engaged''
     = Inl NotImplementedError"
  by (simp add: send_campaign_emails_def stored_service_def service_with_def get_collection_def
      get_contacts_by_tag_def collection_truth_def directory_def)

subsection \<open>Auxiliary facts about the transport loop\<close>

lemma send_one_Inr:
  assumes "d ''to'' = Some addr"
  shows "\<exists>l. send_one send_email now d = Inr l \<and> email l = addr \<and>
           email_status l = (if delivered send_email d then SENT else FAILED) \<and>
           campaign_name l = get_default d ''campaign_name'' [] \<and>
           email_type l = get_default d ''email_type'' []"
  using assms
  by (auto simp: send_one_def try_send_def delivered_def Let_def split: option.splits)

subsection \<open>C8: one log entry per entry of the batch\<close>

text \<open>
  C8. For a batch whose entries all name a recipient, \<open>send_bulk_emails\<close> returns one
  log entry per entry of the batch, in order, for that entry's recipient: with status
  sent when the transport delivered it and failed otherwise, whatever happened to the
  other entries.
\<close>
theorem send_bulk_emails_one_log_each:
  assumes "\<forall>d \<in> set batch. d ''to'' \<noteq> None"
  shows "\<exists>logs. send_bulk_emails send_email now batch = Inr logs \<and>
           length logs = length batch \<and>
           map email logs = map (\<lambda>d. the (d ''to'')) batch \<and>
           map email_status logs =
             map (\<lambda>d. if delivered send_email d then SENT else FAILED) batch \<and>
           (\<forall>i < length batch. send_one send_email now (batch ! i) = Inr (logs ! i))"
  using assms
proof (induction batch)
  case Nil
  then show ?case by simp
next
  case (Cons d ds)
  from Cons.prems obtain addr where a: "d ''to'' = Some addr" by auto
  obtain l where l: "send_one send_email now d = Inr l" "email l = addr"
      "email_status l = (if delivered send_email d then SENT else FAILED)"
    using send_one_Inr [of d addr send_email now] a by blast
  from Cons obtain logs where r: "send_bulk_emails send_email now ds = Inr logs"
      "length logs = length ds"
      "map email logs = map (\<lambda>d. the (d ''to'')) ds"
      "map email_status logs = map (\<lambda>d. if delivered send_email d then SENT else FAILED) ds"
      "\<forall>i < length ds. send_one send_email now (ds ! i) = Inr (logs ! i)"
    by auto
  have nth: "\<forall>i < length (d # ds). send_one send_email now ((d # ds) ! i) = Inr ((l # logs) ! i)"
    using l(1) r(5) by (auto simp: nth_Cons split: nat.splits)
  show ?case
    by (rule exI [of _ "l # logs"]) (use a l r nth in simp)
qed

theorem send_bulk_emails_one_log_each_witness:
  "\<exists>logs. send_bulk_emails failing_transport 0 [mail ''a@x.org'', mail ''bad@x.org'', mail ''c@x.org'']
       = Inr logs \<and>
     map email logs = [''a@x.org'', ''bad@x.org'', ''c@x.org''] \<and>
     map email_status logs = [SENT, FAILED, SENT]"
proof -
  have h: "\<forall>d \<in> set [mail ''a@x.org'', mail ''bad@x.org'', mail ''c@x.org'']. d ''to'' \<noteq> None"
    by (simp add: mail_def)
  obtain logs where
    "send_bulk_emails failing_transport 0 [mail ''a@x.org'', mail ''bad@x.org'', mail ''c@x.org'']
       = Inr logs"
    "map email logs = map (\<lambda>d. the (d ''to'')) [mail ''a@x.org'', mail ''bad@x.org'', mail ''c@x.org'']"
    "map email_status logs =
       map (\<lambda>d. if delivered failing_transport d then SENT else FAILED)
         [mail ''a@x.org'', mail ''bad@x.org'', mail ''c@x.org'']"
    using send_bulk_emails_one_log_each [OF h, of failing_transport 0] by blast
  then show ?thesis
    by (intro exI [of _ logs])
       (simp add: mail_def delivered_def failing_transport_def truthy_def)
qed

end

